theory Spec2Isabelle
  imports Complex_Main "HOL-Library.Multiset"
begin

section \<open>Python values shared by both pages\<close>

text \<open>
  A Python \<open>str\<close> is a sequence of Unicode code points, so it is modelled as a list of
  code points: slicing (\<open>s[:100]\<close>) and concatenation count what Python counts.
  \<open>lit\<close> embeds the ASCII literals of the source.
\<close>

type_synonym str = "nat list"

definition lit :: "string \<Rightarrow> str" where
  "lit s = map of_char s"

text \<open>\<open>sep.join(parts)\<close>.\<close>

fun join :: "str \<Rightarrow> str list \<Rightarrow> str" where
  "join sep [] = []"
| "join sep [x] = x"
| "join sep (x # y # ys) = x @ sep @ join sep (y # ys)"

text \<open>\<open>str(n)\<close> for a non-negative integer, and for any integer.\<close>

function str_nat :: "nat \<Rightarrow> str" where
  "str_nat n = (if n < 10 then [48 + n] else str_nat (n div 10) @ [48 + n mod 10])"
  by pat_completeness auto
termination
  by (relation "measure id") auto

declare str_nat.simps [simp del]

definition str_int :: "int \<Rightarrow> str" where
  "str_int i = (if i < 0 then lit ''-'' @ str_nat (nat (- i)) else str_nat (nat i))"

text \<open>
  An exception that \<open>except Exception\<close> catches: its class name and the text that
  \<open>str(e)\<close> gives.
\<close>

datatype exn = Exn string str

fun exn_str :: "exn \<Rightarrow> str" where
  "exn_str (Exn c m) = m"

text \<open>
  What the page shows through Streamlit, in the order of the calls. The Streamlit calls
  themselves are taken not to raise.
\<close>

datatype ui_event =
    St_error str
  | St_chat_message str
  | St_write str
  | St_empty
  | Placeholder_markdown str

section \<open>The collaborators of \<open>workout.py\<close> and \<open>analysis.py\<close>\<close>

record chat_message =
  role :: str
  content :: str

text \<open>
  The keyword arguments of \<open>client.chat.completions.create\<close>. \<open>functions_arg\<close> is
  \<open>None\<close> when the call passes no function schema, and \<open>Some names\<close> for the one
  schema \<open>recommend_equipment_exercises\<close> of \<open>workout.py\<close>, whose \<open>equipment\<close> enum is
  \<open>names\<close>, together with \<open>function_call="auto"\<close>.
\<close>

record completion_request =
  model :: str
  messages :: "chat_message list"
  functions_arg :: "str list option"
  max_tokens :: "nat option"
  temperature :: rat

text \<open>
  A completion is the list \<open>response.choices\<close>, each choice reduced to its
  \<open>message.content\<close>, which the API types as optional (it is \<open>None\<close> for a function
  call). A streamed completion is the list of chunks that arrive, each chunk the list of
  its \<open>choices[i].delta.content\<close>, and then either the normal end of the stream or the
  exception that the iteration raises.
\<close>

type_synonym chat_completion = "str option list"

type_synonym chunk = "str option list"

record chunk_stream =
  chunks :: "chunk list"
  stream_end :: "exn option"

record exercise =
  name :: str
  instructions :: str

record get_request =
  url :: str
  headers :: "(str \<times> str) list"
  params :: "(str \<times> str) list"

text \<open>
  The response of \<open>requests.get\<close>: status line, final URL, and what \<open>response.json()\<close>
  gives: the decoded array of exercise objects (each with a \<open>name\<close> and an
  \<open>instructions\<close> string, as the exercise catalog service returns them), or the text of
  the \<open>requests.exceptions.JSONDecodeError\<close> it raises on a body that is not JSON.
\<close>

record http_response =
  status_code :: nat
  reason :: str
  response_url :: str
  json :: "str + exercise list"

record equipment_item =
  Equipment_Name :: str
  Purpose :: str

text \<open>
  Everything the two scripts take from outside:
  \<^item> \<open>str_lower\<close> and \<open>str_repr\<close>: Python's \<open>str.lower\<close> and \<open>repr\<close> on a string (both
    depend on the Unicode tables of the interpreter);
  \<^item> \<open>API_NINJAS_KEY\<close>, \<open>equipment_data\<close>: the module globals of \<open>workout.py\<close>;
  \<^item> \<open>requests_get\<close>: \<open>requests.get(url, headers=..., params=...)\<close>; it returns a response
    or raises a \<open>RequestException\<close> (connection error, timeout, ...), given by its text;
  \<^item> \<open>chat_create\<close>, \<open>chat_create_stream\<close>: \<open>client.chat.completions.create\<close> with
    \<open>stream=False\<close> and \<open>stream=True\<close>; the flag selects the shape of the result, so it
    selects the collaborator here;
  \<^item> \<open>secrets_API_KEY\<close>: \<open>st.secrets["API_KEY"]\<close> as \<open>get_ai_analysis\<close> reads it;
  \<^item> \<open>nargsort\<close>: the index permutation pandas' \<open>sort_values\<close> computes for a key column
    with the default \<open>kind='quicksort'\<close>, for \<open>ascending\<close> true or false. The general
    statements below hold for every sort that keeps the promise of pandas
    (\<open>nargsort_ok\<close>); \<open>pandas_nargsort\<close> is the sort pandas runs on the date column.
\<close>

record env =
  str_lower :: "str \<Rightarrow> str"
  str_repr :: "str \<Rightarrow> str"
  API_NINJAS_KEY :: str
  equipment_data :: "equipment_item list"
  requests_get :: "get_request \<Rightarrow> str + http_response"
  chat_create :: "completion_request \<Rightarrow> exn + chat_completion"
  chat_create_stream :: "completion_request \<Rightarrow> exn + chunk_stream"
  secrets_API_KEY :: "exn + str"
  nargsort :: "bool \<Rightarrow> int list \<Rightarrow> nat list"

section \<open>\<open>workout.py\<close>\<close>

subsection \<open>\<open>get_exercise_info\<close>\<close>

text \<open>
  \<open>Response.raise_for_status\<close> of the requests library: it raises \<open>HTTPError\<close> for a
  status from 400 to 599 and returns otherwise. The result is the text of the error.
\<close>

definition raise_for_status :: "http_response \<Rightarrow> str option" where
  "raise_for_status response =
     (if 400 \<le> status_code response \<and> status_code response < 500
      then Some (str_nat (status_code response) @ lit '' Client Error: '' @ reason response
                 @ lit '' for url: '' @ response_url response)
      else if 500 \<le> status_code response \<and> status_code response < 600
      then Some (str_nat (status_code response) @ lit '' Server Error: '' @ reason response
                 @ lit '' for url: '' @ response_url response)
      else None)"

definition exercise_request :: "env \<Rightarrow> str \<Rightarrow> get_request" where
  "exercise_request e muscle =
     \<lparr>url = lit ''https://api.api-ninjas.com/v1/exercises'',
      headers = [(lit ''X-Api-Key'', API_NINJAS_KEY e)],
      params = [(lit ''muscle'', str_lower e muscle)]\<rparr>"

text \<open>
  The body of the \<open>try\<close>: \<open>Inl\<close> is the text of the \<open>RequestException\<close> raised by the
  request, by \<open>raise_for_status\<close> or by \<open>json\<close>.
\<close>

definition get_exercise_info_try :: "env \<Rightarrow> str \<Rightarrow> str + exercise list" where
  "get_exercise_info_try e muscle =
     (case requests_get e (exercise_request e muscle) of
        Inl err \<Rightarrow> Inl err
      | Inr response \<Rightarrow>
          (case raise_for_status response of
             Some err \<Rightarrow> Inl err
           | None \<Rightarrow> json response))"

definition get_exercise_info :: "env \<Rightarrow> str \<Rightarrow> ui_event list \<times> exercise list" where
  "get_exercise_info e muscle =
     (case get_exercise_info_try e muscle of
        Inr exercises \<Rightarrow> ([], exercises)
      | Inl err \<Rightarrow> ([St_error (lit ''Error fetching exercise data: '' @ err)], []))"

subsection \<open>Equipment\<close>

definition get_available_equipment :: "env \<Rightarrow> str list" where
  "get_available_equipment e = map Equipment_Name (equipment_data e)"

subsection \<open>\<open>generate_chat_response\<close>\<close>

definition chat_request :: "env \<Rightarrow> chat_message list \<Rightarrow> completion_request" where
  "chat_request e msgs =
     \<lparr>model = lit ''gpt-4o-mini'',
      messages = msgs,
      functions_arg = Some (get_available_equipment e),
      max_tokens = Some 500,
      temperature = 7 / 10\<rparr>"

definition apology :: str where
  "apology = lit ''I'm having trouble generating a response right now. Please try again.''"

text \<open>The cursor \<open>U+258C\<close> shown after the partial text.\<close>

definition cursor :: str where
  "cursor = [9612]"

text \<open>
  The \<open>for chunk in response\<close> loop, from the text accumulated so far. It gives the
  placeholder updates made, and the full text or the exception that ended the loop:
  \<open>chunk.choices[0]\<close> on a chunk without choices raises \<open>IndexError\<close>, and the stream
  itself may raise.
\<close>

fun consume_stream :: "chunk list \<Rightarrow> exn option \<Rightarrow> str \<Rightarrow> ui_event list \<times> (exn + str)" where
  "consume_stream [] None full_response = ([], Inr full_response)"
| "consume_stream [] (Some err) full_response = ([], Inl err)"
| "consume_stream ([] # rest) fin full_response =
     ([], Inl (Exn ''IndexError'' (lit ''list index out of range'')))"
| "consume_stream ((None # others) # rest) fin full_response =
     consume_stream rest fin full_response"
| "consume_stream ((Some delta # others) # rest) fin full_response =
     (case consume_stream rest fin (full_response @ delta) of
        (shown, r) \<Rightarrow> (Placeholder_markdown (full_response @ delta @ cursor) # shown, r))"

text \<open>The body of the \<open>try\<close> with \<open>stream=True\<close>, the default.\<close>

definition generate_chat_response_try :: "env \<Rightarrow> chat_message list \<Rightarrow> ui_event list \<times> (exn + str)" where
  "generate_chat_response_try e msgs =
     (case chat_create_stream e (chat_request e msgs) of
        Inl err \<Rightarrow> ([], Inl err)
      | Inr response \<Rightarrow>
          (case consume_stream (chunks response) (stream_end response) [] of
             (shown, Inl err) \<Rightarrow> (St_empty # shown, Inl err)
           | (shown, Inr full_response) \<Rightarrow>
               (St_empty # shown @ [Placeholder_markdown full_response], Inr full_response)))"

definition generate_chat_response :: "env \<Rightarrow> chat_message list \<Rightarrow> ui_event list \<times> str" where
  "generate_chat_response e msgs =
     (case generate_chat_response_try e msgs of
        (shown, Inr full_response) \<Rightarrow> (shown, full_response)
      | (shown, Inl err) \<Rightarrow>
          (shown @ [St_error (lit ''Error generating response: '' @ exn_str err)], apology))"

text \<open>
  The same function called with \<open>stream=False\<close>: it returns
  \<open>response.choices[0].message.content\<close>, which may be \<open>None\<close>.
\<close>

definition generate_chat_response_no_stream :: "env \<Rightarrow> chat_message list \<Rightarrow> ui_event list \<times> str option" where
  "generate_chat_response_no_stream e msgs =
     (case chat_create e (chat_request e msgs) of
        Inl err \<Rightarrow> ([St_error (lit ''Error generating response: '' @ exn_str err)], Some apology)
      | Inr [] \<Rightarrow>
          ([St_error (lit ''Error generating response: '' @ lit ''list index out of range'')],
           Some apology)
      | Inr (c # others) \<Rightarrow> ([], c))"

subsection \<open>\<open>extract_muscle_group\<close>\<close>

definition extract_request :: "str \<Rightarrow> completion_request" where
  "extract_request text =
     \<lparr>model = lit ''gpt-4'',
      messages =
        [\<lparr>role = lit ''system'',
          content = lit ''You are a fitness expert. Extract the muscle group from the following text. Reply with ONLY the muscle group name. If no muscle group is mentioned, reply with 'none'.''\<rparr>,
         \<lparr>role = lit ''user'', content = text\<rparr>],
      functions_arg = None,
      max_tokens = Some 50,
      temperature = 0\<rparr>"

text \<open>
  The body of the \<open>try\<close>. Besides the call itself, \<open>choices[0]\<close> raises on an empty list
  and \<open>.lower()\<close> raises on a \<open>None\<close> content.
\<close>

definition extract_muscle_group_try :: "env \<Rightarrow> str \<Rightarrow> exn + str" where
  "extract_muscle_group_try e text =
     (case chat_create e (extract_request text) of
        Inl err \<Rightarrow> Inl err
      | Inr [] \<Rightarrow> Inl (Exn ''IndexError'' (lit ''list index out of range''))
      | Inr (None # others) \<Rightarrow>
          Inl (Exn ''AttributeError''
                 ([39] @ lit ''NoneType' object has no attribute 'lower'' @ [39]))
      | Inr (Some c # others) \<Rightarrow> Inr (str_lower e c))"

definition extract_muscle_group :: "env \<Rightarrow> str \<Rightarrow> str" where
  "extract_muscle_group e text =
     (case extract_muscle_group_try e text of
        Inr muscle_group \<Rightarrow> muscle_group
      | Inl err \<Rightarrow> lit ''none'')"

subsection \<open>The chat turn\<close>

text \<open>
  One line of the exercise list:
  \<open>f"\<bullet> {ex['name']}: {ex['instructions'][:100]}..."\<close>, the bullet being \<open>U+2022\<close>.
\<close>

definition exercise_line :: "exercise \<Rightarrow> str" where
  "exercise_line ex =
     [8226] @ lit '' '' @ name ex @ lit '': '' @ take 100 (instructions ex) @ lit ''...''"

text \<open>The list comprehension over \<open>exercises[:3]\<close>, and the lines joined.\<close>

definition exercise_lines :: "exercise list \<Rightarrow> str list" where
  "exercise_lines exercises = map exercise_line (take 3 exercises)"

definition exercise_info :: "exercise list \<Rightarrow> str" where
  "exercise_info exercises = join [10] (exercise_lines exercises)"

definition equipment_list :: "env \<Rightarrow> str" where
  "equipment_list e = join (lit '', '') (get_available_equipment e)"

text \<open>The three message lists of the script, with the line breaks and the indentation of
  the triple-quoted literals.\<close>

definition found_messages :: "env \<Rightarrow> str \<Rightarrow> str \<Rightarrow> exercise list \<Rightarrow> chat_message list" where
  "found_messages e prompt muscle_group exercises =
     [\<lparr>role = lit ''system'',
       content =
         lit ''You are a knowledgeable and friendly fitness instructor. '' @ [10]
         @ lit ''                Available equipment: '' @ equipment_list e @ lit ''. '' @ [10]
         @ lit ''                Provide helpful, encouraging advice about exercises and suggest exercises using available equipment. '' @ [10]
         @ lit ''                Keep responses concise and engaging.''\<rparr>,
      \<lparr>role = lit ''user'', content = prompt\<rparr>,
      \<lparr>role = lit ''assistant'',
       content =
         lit ''I found some exercises for '' @ muscle_group @ lit ''. Here are the details:''
         @ [10] @ exercise_info exercises\<rparr>]"

definition no_match_messages :: "env \<Rightarrow> str \<Rightarrow> str \<Rightarrow> chat_message list" where
  "no_match_messages e prompt muscle_group =
     [\<lparr>role = lit ''system'',
       content =
         lit ''You are a knowledgeable and friendly fitness instructor.'' @ [10]
         @ lit ''                Available equipment: '' @ equipment_list e @ lit ''.''\<rparr>,
      \<lparr>role = lit ''user'', content = prompt\<rparr>,
      \<lparr>role = lit ''assistant'',
       content =
         lit ''While I couldn't find specific exercises for '' @ muscle_group
         @ lit '' in my database, I can provide general fitness advice based on our available equipment.''\<rparr>]"

definition general_messages :: "env \<Rightarrow> str \<Rightarrow> chat_message list" where
  "general_messages e prompt =
     [\<lparr>role = lit ''system'',
       content =
         lit ''You are a knowledgeable and friendly fitness instructor.'' @ [10]
         @ lit ''            Available equipment: '' @ equipment_list e @ lit ''.''\<rparr>,
      \<lparr>role = lit ''user'', content = prompt\<rparr>]"

text \<open>
  Lines 129 to 159: the extraction, the lookup when the result is not \<open>"none"\<close>, and
  the message list built. The first component is what the lookup reported.
\<close>

definition compose_messages :: "env \<Rightarrow> str \<Rightarrow> ui_event list \<times> chat_message list" where
  "compose_messages e prompt =
     (let muscle_group = extract_muscle_group e prompt in
      if muscle_group \<noteq> lit ''none''
      then (case get_exercise_info e muscle_group of
              (reported, exercises) \<Rightarrow>
                if exercises \<noteq> []
                then (reported, found_messages e prompt muscle_group exercises)
                else (reported, no_match_messages e prompt muscle_group))
      else ([], general_messages e prompt))"

text \<open>
  The block under \<open>if prompt := st.chat_input(...)\<close>, on the transcript
  \<open>st.session_state.messages\<close>: it gives what is shown and the new transcript.
\<close>

definition chat_turn :: "env \<Rightarrow> chat_message list \<Rightarrow> str \<Rightarrow> ui_event list \<times> chat_message list" where
  "chat_turn e session prompt =
     (case compose_messages e prompt of
        (reported, msgs) \<Rightarrow>
          (case generate_chat_response e msgs of
             (shown, response) \<Rightarrow>
               ([St_chat_message (lit ''user''), St_write prompt] @ reported
                @ [St_chat_message (lit ''assistant'')] @ shown,
                session @ [\<lparr>role = lit ''user'', content = prompt\<rparr>]
                @ [\<lparr>role = lit ''assistant'', content = response\<rparr>])))"

text \<open>
  The chat page from the replay of the transcript to the end of the turn. \<open>st.chat_input\<close>
  gives \<open>None\<close> when nothing was submitted, and the walrus test skips an empty string too.
\<close>

definition chat_page :: "env \<Rightarrow> chat_message list \<Rightarrow> str option \<Rightarrow> ui_event list \<times> chat_message list" where
  "chat_page e session submitted =
     (let replay = concat (map (\<lambda>m. [St_chat_message (role m), St_write (content m)]) session) in
      case submitted of
        None \<Rightarrow> (replay, session)
      | Some prompt \<Rightarrow>
          if prompt = [] then (replay, session)
          else (case chat_turn e session prompt of
                  (shown, session') \<Rightarrow> (replay @ shown, session')))"

section \<open>\<open>analysis.py\<close>\<close>

subsection \<open>The workout log\<close>

text \<open>
  The \<open>date\<close> column holds pandas timestamps after \<open>pd.to_datetime\<close>
  (\<open>datetime64[ns]\<close>, without time zone): a timestamp is its number of nanoseconds since
  1970-01-01 00:00, time of day included. Comparison, \<open>min\<close>, \<open>max\<close>, \<open>nunique\<close> and the
  sort work on this number, and subtraction gives the \<open>Timedelta\<close>. \<open>days_from_civil\<close>
  is the day number of a calendar date (days since 1970-01-01) and \<open>civil_from_days\<close> its
  inverse.
\<close>

definition days_from_civil :: "int \<Rightarrow> int \<Rightarrow> int \<Rightarrow> int" where
  "days_from_civil y m d =
     (let y' = (if m \<le> 2 then y - 1 else y);
          era = y' div 400;
          yoe = y' mod 400;
          doy = (153 * (if 2 < m then m - 3 else m + 9) + 2) div 5 + d - 1;
          doe = yoe * 365 + yoe div 4 - yoe div 100 + doy
      in era * 146097 + doe - 719468)"

definition civil_from_days :: "int \<Rightarrow> int \<times> int \<times> int" where
  "civil_from_days z =
     (let z' = z + 719468;
          era = z' div 146097;
          doe = z' mod 146097;
          yoe = (doe - doe div 1460 + doe div 36524 - doe div 146096) div 365;
          y = yoe + era * 400;
          doy = doe - (365 * yoe + yoe div 4 - yoe div 100);
          mp = (5 * doy + 2) div 153;
          d = doy - (153 * mp + 2) div 5 + 1;
          m = (if mp < 10 then mp + 3 else mp - 9)
      in (if m \<le> 2 then y + 1 else y, m, d))"

definition ns_per_day :: int where
  "ns_per_day = 86400000000000"

text \<open>The timestamp that \<open>pd.to_datetime\<close> gives for \<open>'y-m-d hh:mm:ss'\<close>.\<close>

definition timestamp :: "int \<Rightarrow> int \<Rightarrow> int \<Rightarrow> int \<Rightarrow> int \<Rightarrow> int \<Rightarrow> int" where
  "timestamp y m d hh mm ss =
     days_from_civil y m d * ns_per_day + ((hh * 60 + mm) * 60 + ss) * 1000000000"

text \<open>The calendar date of a timestamp, as a day number.\<close>

definition day_number :: "int \<Rightarrow> int" where
  "day_number t = t div ns_per_day"

text \<open>\<open>Timedelta.days\<close>: the whole days of a difference of timestamps, rounded down.\<close>

definition timedelta_days :: "int \<Rightarrow> int" where
  "timedelta_days delta = delta div ns_per_day"

text \<open>\<open>s.zfill(n)\<close> on a string of digits.\<close>

definition zfill :: "nat \<Rightarrow> str \<Rightarrow> str" where
  "zfill n s = replicate (n - length s) 48 @ s"

text \<open>
  \<open>Timestamp.strftime('%Y-%m-%d')\<close>: the calendar date of the timestamp, month and day
  with two digits; the C library prints the year as it is, without padding.
\<close>

definition strftime_Ymd :: "int \<Rightarrow> str" where
  "strftime_Ymd t =
     (case civil_from_days (day_number t) of
        (y, m, d) \<Rightarrow>
          str_int y @ lit ''-'' @ zfill 2 (str_int m) @ lit ''-'' @ zfill 2 (str_int d))"

text \<open>
  One row of the frame, with the columns the page uses. The three set columns are
  \<open>'lbs/bw_reps for first set'\<close>, \<open>'... second set'\<close> and \<open>'... third set'\<close>.
\<close>

record workout_log_entry =
  date :: int
  exercise_name :: str
  muscle_group :: str
  workout_type :: str
  difficulty :: str
  first_set :: str
  second_set :: str
  third_set :: str

type_synonym data_frame = "workout_log_entry list"

text \<open>\<open>Series.min()\<close> and \<open>Series.max()\<close> of a timestamp column: \<open>None\<close> is \<open>NaT\<close>.\<close>

fun series_min :: "int list \<Rightarrow> int option" where
  "series_min [] = None"
| "series_min (x # xs) = Some (fold min xs x)"

fun series_max :: "int list \<Rightarrow> int option" where
  "series_max [] = None"
| "series_max (x # xs) = Some (fold max xs x)"

text \<open>\<open>Series.nunique()\<close>.\<close>

definition nunique :: "'a list \<Rightarrow> nat" where
  "nunique col = length (remdups col)"

text \<open>
  \<open>Series.value_counts().to_dict()\<close>: the values in first-seen order with their counts,
  reordered by \<open>sort_values(ascending=False)\<close> on the counts; the dictionary keeps this
  order.
\<close>

definition value_counts :: "env \<Rightarrow> str list \<Rightarrow> (str \<times> nat) list" where
  "value_counts e col =
     (let keys = rev (remdups (rev col));
          counts = map (count_list col) keys;
          indexer = nargsort e False (map int counts)
      in map (\<lambda>i. (keys ! i, counts ! i)) indexer)"

subsection \<open>\<open>get_ai_analysis\<close>\<close>

record stats =
  start_date :: str
  end_date :: str
  total_days :: int
  total_workouts :: nat
  days_active :: nat
  muscle_groups :: "(str \<times> nat) list"
  workout_types :: "(str \<times> nat) list"
  difficulty_levels :: "(str \<times> nat) list"

text \<open>
  Lines 18 to 25. On an empty frame \<open>min()\<close> is \<open>NaT\<close> and \<open>NaT.strftime\<close> raises
  \<open>ValueError\<close>, in line 18, before anything else is computed.
\<close>

definition workout_stats :: "env \<Rightarrow> data_frame \<Rightarrow> exn + stats" where
  "workout_stats e df =
     (case (series_min (map date df), series_max (map date df)) of
        (Some lo, Some hi) \<Rightarrow>
          Inr \<lparr>start_date = strftime_Ymd lo,
               end_date = strftime_Ymd hi,
               total_days = timedelta_days (hi - lo) + 1,
               total_workouts = length df,
               days_active = nunique (map date df),
               muscle_groups = value_counts e (map muscle_group df),
               workout_types = value_counts e (map workout_type df),
               difficulty_levels = value_counts e (map difficulty df)\<rparr>
      | _ \<Rightarrow> Inl (Exn ''ValueError'' (lit ''NaTType does not support strftime'')))"

text \<open>\<open>str(d)\<close> of a dictionary from strings to counts.\<close>

definition str_dict :: "env \<Rightarrow> (str \<times> nat) list \<Rightarrow> str" where
  "str_dict e d =
     lit ''{'' @ join (lit '', '') (map (\<lambda>(k, v). str_repr e k @ lit '': '' @ str_nat v) d)
     @ lit ''}''"

definition analysis_prompt :: "env \<Rightarrow> stats \<Rightarrow> str" where
  "analysis_prompt e s =
     [10]
      @ lit ''        As a fitness expert, analyze the workout history from '' @ start_date s @ lit '' to '' @ end_date s @ lit '' ('' @ str_int (total_days s) @ lit '' days):'' @ [10]
      @ lit ''        - Total exercises performed: '' @ str_nat (total_workouts s) @ [10]
      @ lit ''        - Active days: '' @ str_nat (days_active s) @ [10]
      @ lit ''        - Muscle groups targeted (with frequency): '' @ str_dict e (muscle_groups s) @ [10]
      @ lit ''        - Types of workouts performed: '' @ str_dict e (workout_types s) @ [10]
      @ lit ''        - Difficulty levels: '' @ str_dict e (difficulty_levels s) @ [10]
      @ [10]
      @ lit ''        Provide a brief analysis including:'' @ [10]
      @ lit ''        1. Overall consistency and commitment'' @ [10]
      @ lit ''        2. Balance of muscle groups (any imbalances?)'' @ [10]
      @ lit ''        3. Progression in difficulty over this time period'' @ [10]
      @ lit ''        4. Specific recommendations for improvement based on this time period'' @ [10]
      @ lit ''        Keep the analysis concise but specific to this user's data.'' @ [10]
      @ lit ''        Consider the time period when making your analysis - if it's a short period, focus on initial progress. '' @ [10]
      @ lit ''        If it's longer, focus on trends and progression.'' @ [10]
      @ lit ''        ''"

definition analysis_request :: "env \<Rightarrow> stats \<Rightarrow> completion_request" where
  "analysis_request e s =
     \<lparr>model = lit ''gpt-4o-mini'',
      messages =
        [\<lparr>role = lit ''system'',
          content = lit ''You are a knowledgeable fitness instructor analyzing workout data. While output report, address the user as you/your.''\<rparr>,
         \<lparr>role = lit ''user'', content = analysis_prompt e s\<rparr>],
      functions_arg = None,
      max_tokens = None,
      temperature = 1 / 10\<rparr>"

definition period_context :: "stats \<Rightarrow> str" where
  "period_context s =
     [10] @ lit ''Analysis Period: '' @ start_date s @ lit '' to '' @ end_date s
     @ lit '' ('' @ str_int (total_days s) @ lit '' days)''"

text \<open>
  The body of the \<open>try\<close>. After the request, \<open>choices[0]\<close> raises on an empty list, and
  the final concatenation raises \<open>TypeError\<close> on a \<open>None\<close> content.
\<close>

definition get_ai_analysis_try :: "env \<Rightarrow> data_frame \<Rightarrow> exn + str" where
  "get_ai_analysis_try e df =
     (case secrets_API_KEY e of
        Inl err \<Rightarrow> Inl err
      | Inr api_key \<Rightarrow>
          (case workout_stats e df of
             Inl err \<Rightarrow> Inl err
           | Inr s \<Rightarrow>
               (case chat_create e (analysis_request e s) of
                  Inl err \<Rightarrow> Inl err
                | Inr [] \<Rightarrow> Inl (Exn ''IndexError'' (lit ''list index out of range''))
                | Inr (None # others) \<Rightarrow>
                    Inl (Exn ''TypeError''
                           (lit ''can only concatenate str (not \"NoneType\") to str''))
                | Inr (Some analysis # others) \<Rightarrow>
                    Inr (period_context s @ [10, 10] @ analysis))))"

definition unable :: "exn \<Rightarrow> str" where
  "unable err = lit ''Unable to generate AI analysis: '' @ exn_str err"

definition get_ai_analysis :: "env \<Rightarrow> data_frame \<Rightarrow> str" where
  "get_ai_analysis e df =
     (case get_ai_analysis_try e df of
        Inr text \<Rightarrow> text
      | Inl err \<Rightarrow> unable err)"

text \<open>
  The frame that \<open>get_ai_analysis\<close> receives: a frame with the columns of the log, or the
  frame without any column that \<open>pd.DataFrame([])\<close> builds from an empty list.
\<close>

datatype frame = Without_columns | With_columns data_frame

text \<open>
  \<open>try: body except Exception as e: handler\<close>. The result is the value returned, or
  the exception that leaves the statement: the handler runs on what the body raises, and
  what the handler raises goes on to the caller.
\<close>

definition try_except :: "(exn + 'a) \<Rightarrow> (exn \<Rightarrow> exn + 'a) \<Rightarrow> exn + 'a" where
  "try_except body handler =
     (case body of
        Inr v \<Rightarrow> Inr v
      | Inl err \<Rightarrow> handler err)"

text \<open>
  The call \<open>get_ai_analysis(df)\<close> as its caller sees it: \<open>Inr\<close> the string returned,
  \<open>Inl\<close> an exception that leaves the function. On a frame without columns the client
  is built first and then \<open>df['date']\<close> raises \<open>KeyError('date')\<close>, whose text is
  \<open>'date'\<close> with the quotes.
\<close>

definition get_ai_analysis_call :: "env \<Rightarrow> frame \<Rightarrow> exn + str" where
  "get_ai_analysis_call e fr =
     try_except
       (case fr of
          With_columns df \<Rightarrow> get_ai_analysis_try e df
        | Without_columns \<Rightarrow>
            (case secrets_API_KEY e of
               Inl err \<Rightarrow> Inl err
             | Inr api_key \<Rightarrow> Inl (Exn ''KeyError'' ([39] @ lit ''date'' @ [39]))))
       (\<lambda>err. Inr (lit ''Unable to generate AI analysis: '' @ exn_str err))"

subsection \<open>The exercise history table\<close>





subsection \<open>The sort that pandas runs on the date column\<close>
























section \<open>Concrete collaborators\<close>

text \<open>\<open>str.lower\<close> and \<open>repr\<close> on ASCII text without quotes or control characters.\<close>

definition ascii_lower :: "str \<Rightarrow> str" where
  "ascii_lower s = map (\<lambda>c. if 65 \<le> c \<and> c \<le> 90 then c + 32 else c) s"

definition ascii_repr :: "str \<Rightarrow> str" where
  "ascii_repr s = [39] @ s @ [39]"

text \<open>A sort within the promise: it keeps equal keys in their order.\<close>

definition stable_nargsort :: "bool \<Rightarrow> int list \<Rightarrow> nat list" where
  "stable_nargsort ascending ks =
     (if ascending then sort_key (\<lambda>i. ks ! i) [0..<length ks]
      else sort_key (\<lambda>i. - (ks ! i)) [0..<length ks])"

text \<open>
  An environment in which every service is down; the examples below switch single
  services on.
\<close>

definition offline_env :: env where
  "offline_env =
     \<lparr>str_lower = ascii_lower,
      str_repr = ascii_repr,
      API_NINJAS_KEY = lit ''ninjas-key'',
      equipment_data =
        [\<lparr>Equipment_Name = lit ''Bench'', Purpose = lit ''Chest press''\<rparr>,
         \<lparr>Equipment_Name = lit ''Dumbbells'', Purpose = lit ''Free weights''\<rparr>],
      requests_get = (\<lambda>r. Inl (lit ''Connection refused'')),
      chat_create = (\<lambda>r. Inl (Exn ''APIConnectionError'' (lit ''Connection error.''))),
      chat_create_stream = (\<lambda>r. Inl (Exn ''APIConnectionError'' (lit ''Connection error.''))),
      secrets_API_KEY = Inr (lit ''sk-test''),
      nargsort = stable_nargsort\<rparr>"

text \<open>
  The model replies "Biceps"; the catalog answers 200 with an empty array, with one
  record, or 300 with one record; or the completion stream breaks after its first chunk.
\<close>

definition curl :: exercise where
  "curl = \<lparr>name = lit ''Curl'', instructions = lit ''Lift the bar.''\<rparr>"

definition catalog_reply :: "nat \<Rightarrow> str \<Rightarrow> exercise list \<Rightarrow> get_request \<Rightarrow> str + http_response" where
  "catalog_reply status phrase records r =
     Inr \<lparr>status_code = status, reason = phrase, response_url = url r, json = Inr records\<rparr>"

definition biceps_empty_env :: env where
  "biceps_empty_env =
     offline_env\<lparr>chat_create := \<lambda>r. Inr [Some (lit ''Biceps'')],
                 requests_get := catalog_reply 200 (lit ''OK'') []\<rparr>"

definition biceps_found_env :: env where
  "biceps_found_env =
     offline_env\<lparr>chat_create := \<lambda>r. Inr [Some (lit ''Biceps'')],
                 requests_get := catalog_reply 200 (lit ''OK'') [curl]\<rparr>"

definition multiple_choices_env :: env where
  "multiple_choices_env =
     offline_env\<lparr>requests_get := catalog_reply 300 (lit ''Multiple Choices'') [curl]\<rparr>"

definition broken_stream_env :: env where
  "broken_stream_env =
     offline_env\<lparr>chat_create_stream :=
       \<lambda>r. Inr \<lparr>chunks = [[Some (lit ''Try'')]],
                  stream_end = Some (Exn ''APIError'' (lit ''stream interrupted''))\<rparr>\<rparr>"

definition not_found_env :: env where
  "not_found_env =
     offline_env\<lparr>requests_get := \<lambda>r. Inr
       \<lparr>status_code = 404, reason = lit ''Not Found'',
        response_url = lit ''https://api.api-ninjas.com/v1/exercises?muscle=biceps'',
        json = Inr []\<rparr>\<rparr>"

text \<open>
  A completion service that answers, one that answers without a choice and one whose
  choice has no content; a page without the API key; and the sort of pandas in place of
  the stable one.
\<close>

definition analyst_env :: env where
  "analyst_env = offline_env\<lparr>chat_create := \<lambda>r. Inr [Some (lit ''Keep going.'')]\<rparr>"

definition no_choice_env :: env where
  "no_choice_env = offline_env\<lparr>chat_create := \<lambda>r. Inr []\<rparr>"

definition no_content_env :: env where
  "no_content_env = offline_env\<lparr>chat_create := \<lambda>r. Inr [None]\<rparr>"

definition no_secret_env :: env where
  "no_secret_env =
     offline_env\<lparr>secrets_API_KEY := Inl (Exn ''FileNotFoundError'' (lit ''No secrets found.''))\<rparr>"


text \<open>
  Log entries with a date only, hence at midnight: one of 2024-01-01, three of 2024-01-03
  and one of 2024-01-05.
\<close>

definition chest_entry :: workout_log_entry where
  "chest_entry =
     \<lparr>date = timestamp 2024 1 1 0 0 0, exercise_name = lit ''Bench press'',
      muscle_group = lit ''chest'', workout_type = lit ''Strength'',
      difficulty = lit ''Beginner'', first_set = lit ''100/10'',
      second_set = lit ''100/8'', third_set = lit ''100/6''\<rparr>"

definition back_entry :: workout_log_entry where
  "back_entry =
     \<lparr>date = timestamp 2024 1 3 0 0 0, exercise_name = lit ''Barbell row'',
      muscle_group = lit ''back'', workout_type = lit ''Strength'',
      difficulty = lit ''Intermediate'', first_set = lit ''80/10'',
      second_set = lit ''80/10'', third_set = lit ''80/8''\<rparr>"












definition two_entry_log :: data_frame where
  "two_entry_log = [chest_entry, back_entry]"


section \<open>The muscle-group extractor\<close>

text \<open>
  Claim C5. For every input text, when the extraction fails, that is when the completion
  call raises (network, authentication, ...) or the response is malformed (no choice, or
  a choice without content), \<open>extract_muscle_group\<close> returns exactly \<open>"none"\<close>; nothing
  is propagated.
\<close>

theorem extract_failure_gives_none:
  assumes "(\<exists>err. chat_create e (extract_request text) = Inl err)
           \<or> chat_create e (extract_request text) = Inr []
           \<or> (\<exists>others. chat_create e (extract_request text) = Inr (None # others))"
  shows "extract_muscle_group e text = lit ''none''"
  using assms by (auto simp: extract_muscle_group_def extract_muscle_group_try_def)

text \<open>With the completion service unreachable, the text "my arms" gives \<open>"none"\<close>.\<close>

theorem extract_failure_gives_none_witness:
  "(\<exists>err. chat_create offline_env (extract_request (lit ''my arms'')) = Inl err)
   \<and> extract_muscle_group offline_env (lit ''my arms'') = lit ''none''"
proof -
  have down: "\<exists>err. chat_create offline_env (extract_request (lit ''my arms'')) = Inl err"
    by (simp add: offline_env_def)
  from down extract_failure_gives_none [of offline_env "lit ''my arms''"]
  show ?thesis by blast
qed

text \<open>
  Claim C6, as amended. The result of the extraction is either the literal \<open>"none"\<close> or
  the lower-cased content of the first choice of the model's reply, whatever that content
  is: the function neither trims it nor compares it with a list of muscle groups.
\<close>

theorem extract_result_is_lowered_reply_or_none:
  "(extract_muscle_group e text = lit ''none''
    \<or> (\<exists>c others. chat_create e (extract_request text) = Inr (Some c # others)
           \<and> extract_muscle_group e text = str_lower e c))
   \<and> (\<forall>c others. chat_create e (extract_request text) = Inr (Some c # others) \<longrightarrow>
          extract_muscle_group e text = str_lower e c)"
  by (auto simp: extract_muscle_group_def extract_muscle_group_try_def
           split: sum.splits list.splits option.splits)

text \<open>The reply "Biceps" gives "biceps".\<close>

theorem extract_result_is_lowered_reply_or_none_witness:
  "chat_create biceps_found_env (extract_request (lit ''arms?'')) = Inr [Some (lit ''Biceps'')]
   \<and> extract_muscle_group biceps_found_env (lit ''arms?'') = lit ''biceps''"
proof -
  have reply: "chat_create biceps_found_env (extract_request (lit ''arms?''))
      = Inr [Some (lit ''Biceps'')]"
    by (simp add: biceps_found_env_def)
  have lowered: "str_lower biceps_found_env (lit ''Biceps'') = lit ''biceps''"
    by (simp add: biceps_found_env_def offline_env_def ascii_lower_def lit_def)
  from extract_result_is_lowered_reply_or_none [of biceps_found_env "lit ''arms?''"] reply
  have "extract_muscle_group biceps_found_env (lit ''arms?'')
      = str_lower biceps_found_env (lit ''Biceps'')"
    by blast
  with reply lowered show ?thesis by simp
qed

text \<open>
  The claim as stated excludes the empty string. A reply whose content is empty is
  returned as it is: the result is the empty string, not \<open>"none"\<close>.
\<close>

theorem extract_empty_reply_counterexample:
  "extract_muscle_group (offline_env\<lparr>chat_create := \<lambda>r. Inr [Some []]\<rparr>) (lit ''hello'') = []
   \<and> [] \<noteq> lit ''none''"
  by (simp add: extract_muscle_group_def extract_muscle_group_try_def offline_env_def
        ascii_lower_def lit_def)

section \<open>The exercise list of the prompt\<close>

text \<open>
  Claim C4. For every list of exercise records the lookup returns, the list composed
  into the prompt has \<open>min 3 n\<close> items for \<open>n\<close> records, so at most 3; item \<open>i\<close> is made
  from record \<open>i\<close>, and its instruction text is the first 100 characters of the record's
  instructions (all of them when there are fewer) followed by the marker \<open>...\<close>.
\<close>

theorem exercise_lines_capped:
  "length (exercise_lines exercises) = min 3 (length exercises)
   \<and> length (exercise_lines exercises) \<le> 3
   \<and> (\<forall>i < length (exercise_lines exercises).
         exercise_lines exercises ! i =
           [8226] @ lit '' '' @ name (exercises ! i) @ lit '': ''
           @ take 100 (instructions (exercises ! i)) @ lit ''...''
         \<and> length (take 100 (instructions (exercises ! i)))
             = min 100 (length (instructions (exercises ! i))))
   \<and> exercise_info exercises = join [10] (exercise_lines exercises)"
  by (auto simp: exercise_lines_def exercise_info_def exercise_line_def min.commute)

text \<open>
  Four records, the second with 120 characters of instructions: three lines are kept, and
  the second line carries 100 of the 120 characters.
\<close>

theorem exercise_lines_capped_witness:
  "length (exercise_lines
      [\<lparr>name = lit ''Curl'', instructions = lit ''Lift.''\<rparr>,
       \<lparr>name = lit ''Chin-up'', instructions = replicate 120 97\<rparr>,
       \<lparr>name = lit ''Row'', instructions = lit ''Pull.''\<rparr>,
       \<lparr>name = lit ''Dip'', instructions = lit ''Push.''\<rparr>]) = 3
   \<and> exercise_lines
      [\<lparr>name = lit ''Curl'', instructions = lit ''Lift.''\<rparr>,
       \<lparr>name = lit ''Chin-up'', instructions = replicate 120 97\<rparr>,
       \<lparr>name = lit ''Row'', instructions = lit ''Pull.''\<rparr>,
       \<lparr>name = lit ''Dip'', instructions = lit ''Push.''\<rparr>] ! 1
     = [8226] @ lit '' Chin-up: '' @ replicate 100 97 @ lit ''...''"
  using exercise_lines_capped
    [of "[\<lparr>name = lit ''Curl'', instructions = lit ''Lift.''\<rparr>,
          \<lparr>name = lit ''Chin-up'', instructions = replicate 120 97\<rparr>,
          \<lparr>name = lit ''Row'', instructions = lit ''Pull.''\<rparr>,
          \<lparr>name = lit ''Dip'', instructions = lit ''Push.''\<rparr>]"]
  by (simp add: lit_def)

section \<open>The chat orchestrator\<close>

text \<open>
  Claim C1. The message list built for the completion is a three-way function of the
  extraction result and the lookup result. Extraction not \<open>"none"\<close> and at least one
  record: system, user and a synthetic assistant message listing the exercises.
  Extraction not \<open>"none"\<close> and no record: system, user and a synthetic assistant message
  saying that no specific exercise was found. Extraction \<open>"none"\<close>: system and user
  only.
\<close>

theorem compose_messages_three_way:
  "(extract_muscle_group e prompt \<noteq> lit ''none''
      \<and> snd (get_exercise_info e (extract_muscle_group e prompt)) \<noteq> [] \<longrightarrow>
      snd (compose_messages e prompt)
        = found_messages e prompt (extract_muscle_group e prompt)
            (snd (get_exercise_info e (extract_muscle_group e prompt))))
   \<and> (extract_muscle_group e prompt \<noteq> lit ''none''
      \<and> snd (get_exercise_info e (extract_muscle_group e prompt)) = [] \<longrightarrow>
      snd (compose_messages e prompt)
        = no_match_messages e prompt (extract_muscle_group e prompt))
   \<and> (extract_muscle_group e prompt = lit ''none'' \<longrightarrow>
      snd (compose_messages e prompt) = general_messages e prompt)
   \<and> map role (found_messages e prompt mg exercises)
       = [lit ''system'', lit ''user'', lit ''assistant'']
   \<and> content (found_messages e prompt mg exercises ! 1) = prompt
   \<and> content (found_messages e prompt mg exercises ! 2)
       = lit ''I found some exercises for '' @ mg @ lit ''. Here are the details:''
         @ [10] @ exercise_info exercises
   \<and> map role (no_match_messages e prompt mg)
       = [lit ''system'', lit ''user'', lit ''assistant'']
   \<and> content (no_match_messages e prompt mg ! 1) = prompt
   \<and> content (no_match_messages e prompt mg ! 2)
       = lit ''While I couldn't find specific exercises for '' @ mg
         @ lit '' in my database, I can provide general fitness advice based on our available equipment.''
   \<and> map role (general_messages e prompt) = [lit ''system'', lit ''user'']
   \<and> content (general_messages e prompt ! 1) = prompt"
  by (simp add: compose_messages_def found_messages_def no_match_messages_def
        general_messages_def Let_def split: prod.splits)

text \<open>
  The three branches at work on the question "arms?": the model says "Biceps" and the
  catalog has one record; the model says "Biceps" and the catalog has none (the no-match
  branch, whose list differs from the list of the "none" branch); the extraction fails.
\<close>

theorem compose_messages_three_way_witness:
  "extract_muscle_group biceps_found_env (lit ''arms?'') \<noteq> lit ''none''
   \<and> snd (get_exercise_info biceps_found_env
             (extract_muscle_group biceps_found_env (lit ''arms?''))) \<noteq> []
   \<and> snd (compose_messages biceps_found_env (lit ''arms?''))
       = found_messages biceps_found_env (lit ''arms?'') (lit ''biceps'') [curl]
   \<and> extract_muscle_group biceps_empty_env (lit ''arms?'') \<noteq> lit ''none''
   \<and> snd (get_exercise_info biceps_empty_env
             (extract_muscle_group biceps_empty_env (lit ''arms?''))) = []
   \<and> snd (compose_messages biceps_empty_env (lit ''arms?''))
       = no_match_messages biceps_empty_env (lit ''arms?'') (lit ''biceps'')
   \<and> no_match_messages biceps_empty_env (lit ''arms?'') (lit ''biceps'')
       \<noteq> general_messages biceps_empty_env (lit ''arms?'')
   \<and> extract_muscle_group offline_env (lit ''arms?'') = lit ''none''
   \<and> snd (compose_messages offline_env (lit ''arms?''))
       = general_messages offline_env (lit ''arms?'')"
proof -
  have found_mg: "extract_muscle_group biceps_found_env (lit ''arms?'') = lit ''biceps''"
    by (simp add: biceps_found_env_def offline_env_def extract_muscle_group_def
          extract_muscle_group_try_def ascii_lower_def lit_def)
  have empty_mg: "extract_muscle_group biceps_empty_env (lit ''arms?'') = lit ''biceps''"
    by (simp add: biceps_empty_env_def offline_env_def extract_muscle_group_def
          extract_muscle_group_try_def ascii_lower_def lit_def)
  have off_mg: "extract_muscle_group offline_env (lit ''arms?'') = lit ''none''"
    by (simp add: offline_env_def extract_muscle_group_def extract_muscle_group_try_def)
  have differ: "lit ''biceps'' \<noteq> lit ''none''"
    by (simp add: lit_def)
  have found_ex: "snd (get_exercise_info biceps_found_env (lit ''biceps'')) = [curl]"
    by (simp add: biceps_found_env_def offline_env_def catalog_reply_def
          get_exercise_info_def get_exercise_info_try_def raise_for_status_def)
  have empty_ex: "snd (get_exercise_info biceps_empty_env (lit ''biceps'')) = []"
    by (simp add: biceps_empty_env_def offline_env_def catalog_reply_def
          get_exercise_info_def get_exercise_info_try_def raise_for_status_def)
  have lists_differ: "no_match_messages biceps_empty_env (lit ''arms?'') (lit ''biceps'')
       \<noteq> general_messages biceps_empty_env (lit ''arms?'')"
    by (simp add: no_match_messages_def general_messages_def)
  from compose_messages_three_way [of biceps_found_env "lit ''arms?''"]
    compose_messages_three_way [of biceps_empty_env "lit ''arms?''"]
    compose_messages_three_way [of offline_env "lit ''arms?''"]
    found_mg empty_mg off_mg differ found_ex empty_ex lists_differ
  show ?thesis by simp
qed

text \<open>
  What ends the loop over a stream that raises: the exception of the stream when every
  chunk has a choice, and the \<open>IndexError\<close> of \<open>choices[0]\<close> when a chunk has none.
\<close>

lemma consume_stream_raises:
  "[] \<notin> set cs \<Longrightarrow> snd (consume_stream cs (Some err) acc) = Inl err"
  by (induction cs "Some err" acc rule: consume_stream.induct) (auto split: prod.splits)

lemma consume_stream_no_choice:
  "[] \<in> set cs \<Longrightarrow>
     snd (consume_stream cs fin acc) = Inl (Exn ''IndexError'' (lit ''list index out of range''))"
  by (induction cs fin acc rule: consume_stream.induct) (auto split: prod.splits)

lemma generate_try_failure:
  assumes "chat_create_stream e (chat_request e msgs) = Inl err
           \<or> (\<exists>response. chat_create_stream e (chat_request e msgs) = Inr response
                  \<and> [] \<notin> set (chunks response) \<and> stream_end response = Some err)
           \<or> (\<exists>response. chat_create_stream e (chat_request e msgs) = Inr response
                  \<and> [] \<in> set (chunks response)
                  \<and> err = Exn ''IndexError'' (lit ''list index out of range''))"
  shows "snd (generate_chat_response_try e msgs) = Inl err"
  using assms
proof (elim disjE exE conjE)
  assume "chat_create_stream e (chat_request e msgs) = Inl err"
  then show ?thesis by (simp add: generate_chat_response_try_def)
next
  fix response
  assume r: "chat_create_stream e (chat_request e msgs) = Inr response"
    and c: "[] \<notin> set (chunks response)" and s: "stream_end response = Some err"
  have "snd (consume_stream (chunks response) (Some err) []) = Inl err"
    using c by (rule consume_stream_raises)
  with r s show ?thesis
    by (auto simp: generate_chat_response_try_def split: prod.splits sum.splits)
next
  fix response
  assume r: "chat_create_stream e (chat_request e msgs) = Inr response"
    and c: "[] \<in> set (chunks response)"
    and i: "err = Exn ''IndexError'' (lit ''list index out of range'')"
  have "snd (consume_stream (chunks response) (stream_end response) []) = Inl err"
    unfolding i using c by (rule consume_stream_no_choice)
  with r show ?thesis
    by (auto simp: generate_chat_response_try_def split: prod.splits sum.splits)
qed

lemma generate_failure:
  assumes "snd (generate_chat_response_try e msgs) = Inl err"
  shows "snd (generate_chat_response e msgs) = apology
         \<and> fst (generate_chat_response e msgs) \<noteq> []
         \<and> last (fst (generate_chat_response e msgs))
             = St_error (lit ''Error generating response: '' @ exn_str err)"
  using assms by (auto simp: generate_chat_response_def split: prod.splits sum.splits)

lemma chat_turn_transcript:
  "snd (chat_turn e session prompt)
     = session @ [\<lparr>role = lit ''user'', content = prompt\<rparr>,
                  \<lparr>role = lit ''assistant'',
                   content = snd (generate_chat_response e (snd (compose_messages e prompt)))\<rparr>]"
  by (simp add: chat_turn_def split: prod.splits)

lemma chat_turn_last_shown:
  "fst (generate_chat_response e (snd (compose_messages e prompt))) \<noteq> [] \<Longrightarrow>
   last (fst (chat_turn e session prompt))
     = last (fst (generate_chat_response e (snd (compose_messages e prompt))))"
  by (auto simp: chat_turn_def split: prod.splits)

text \<open>
  Claim C7. For every message list, if the chat completion fails with the exception
  \<open>err\<close>, because the call raises it, because the stream raises it while it is read, or
  because a chunk without choices makes \<open>choices[0]\<close> raise it, then
  \<open>generate_chat_response\<close> returns the fixed apology instead of raising and the last
  thing it shows is \<open>st.error\<close> with "Error generating response: " and the text of
  \<open>err\<close>; when the call itself raises, nothing else is shown. When this happens in a
  chat turn, the apology is appended to the session transcript as the assistant turn,
  right after the user turn, and the error is the last thing the turn shows.
\<close>

theorem completion_failure_keeps_transcript:
  assumes "chat_create_stream e (chat_request e msgs) = Inl err
           \<or> (\<exists>response. chat_create_stream e (chat_request e msgs) = Inr response
                  \<and> [] \<notin> set (chunks response) \<and> stream_end response = Some err)
           \<or> (\<exists>response. chat_create_stream e (chat_request e msgs) = Inr response
                  \<and> [] \<in> set (chunks response)
                  \<and> err = Exn ''IndexError'' (lit ''list index out of range''))"
  shows "snd (generate_chat_response e msgs) = apology
         \<and> fst (generate_chat_response e msgs) \<noteq> []
         \<and> last (fst (generate_chat_response e msgs))
             = St_error (lit ''Error generating response: '' @ exn_str err)
         \<and> (chat_create_stream e (chat_request e msgs) = Inl err \<longrightarrow>
               generate_chat_response e msgs
                 = ([St_error (lit ''Error generating response: '' @ exn_str err)], apology))
         \<and> (msgs = snd (compose_messages e prompt) \<longrightarrow>
               snd (chat_turn e session prompt)
                 = session @ [\<lparr>role = lit ''user'', content = prompt\<rparr>,
                              \<lparr>role = lit ''assistant'', content = apology\<rparr>]
               \<and> last (fst (chat_turn e session prompt))
                   = St_error (lit ''Error generating response: '' @ exn_str err))"
proof -
  have f: "snd (generate_chat_response_try e msgs) = Inl err"
    using assms by (rule generate_try_failure)
  note g = generate_failure [OF f]
  have direct: "generate_chat_response e msgs
      = ([St_error (lit ''Error generating response: '' @ exn_str err)], apology)"
    if "chat_create_stream e (chat_request e msgs) = Inl err"
    using that by (simp add: generate_chat_response_def generate_chat_response_try_def)
  have turn: "snd (chat_turn e session prompt)
                 = session @ [\<lparr>role = lit ''user'', content = prompt\<rparr>,
                              \<lparr>role = lit ''assistant'', content = apology\<rparr>]
               \<and> last (fst (chat_turn e session prompt))
                   = St_error (lit ''Error generating response: '' @ exn_str err)"
    if "msgs = snd (compose_messages e prompt)"
    using that g by (simp add: chat_turn_transcript chat_turn_last_shown)
  from g direct turn show ?thesis by blast
qed

text \<open>
  Both failures in a first turn "arms?": the call raises "Connection error.", and the
  stream breaks with "stream interrupted" after its first chunk. The error shown carries
  the text of the exception, and the transcript ends with the user turn and the apology.
\<close>

theorem completion_failure_keeps_transcript_witness:
  "chat_create_stream offline_env
       (chat_request offline_env (snd (compose_messages offline_env (lit ''arms?''))))
     = Inl (Exn ''APIConnectionError'' (lit ''Connection error.''))
   \<and> generate_chat_response offline_env (snd (compose_messages offline_env (lit ''arms?'')))
     = ([St_error (lit ''Error generating response: '' @ lit ''Connection error.'')], apology)
   \<and> snd (chat_turn offline_env [] (lit ''arms?''))
       = [\<lparr>role = lit ''user'', content = lit ''arms?''\<rparr>,
          \<lparr>role = lit ''assistant'', content = apology\<rparr>]
   \<and> last (fst (chat_turn offline_env [] (lit ''arms?'')))
       = St_error (lit ''Error generating response: '' @ lit ''Connection error.'')
   \<and> (\<exists>response. chat_create_stream broken_stream_env
          (chat_request broken_stream_env (snd (compose_messages broken_stream_env (lit ''arms?''))))
            = Inr response \<and> [] \<notin> set (chunks response)
          \<and> stream_end response = Some (Exn ''APIError'' (lit ''stream interrupted'')))
   \<and> snd (chat_turn broken_stream_env [] (lit ''arms?''))
       = [\<lparr>role = lit ''user'', content = lit ''arms?''\<rparr>,
          \<lparr>role = lit ''assistant'', content = apology\<rparr>]
   \<and> last (fst (chat_turn broken_stream_env [] (lit ''arms?'')))
       = St_error (lit ''Error generating response: '' @ lit ''stream interrupted'')"
proof -
  have down: "chat_create_stream offline_env
       (chat_request offline_env (snd (compose_messages offline_env (lit ''arms?''))))
     = Inl (Exn ''APIConnectionError'' (lit ''Connection error.''))"
    by (simp add: offline_env_def)
  have broken: "\<exists>response. chat_create_stream broken_stream_env
          (chat_request broken_stream_env (snd (compose_messages broken_stream_env (lit ''arms?''))))
            = Inr response \<and> [] \<notin> set (chunks response)
          \<and> stream_end response = Some (Exn ''APIError'' (lit ''stream interrupted''))"
    by (simp add: broken_stream_env_def)
  from down
    completion_failure_keeps_transcript
      [of offline_env "snd (compose_messages offline_env (lit ''arms?''))"
          "Exn ''APIConnectionError'' (lit ''Connection error.'')" "lit ''arms?''" "[]"]
  have one: "generate_chat_response offline_env (snd (compose_messages offline_env (lit ''arms?'')))
     = ([St_error (lit ''Error generating response: '' @ lit ''Connection error.'')], apology)
   \<and> snd (chat_turn offline_env [] (lit ''arms?''))
       = [\<lparr>role = lit ''user'', content = lit ''arms?''\<rparr>,
          \<lparr>role = lit ''assistant'', content = apology\<rparr>]
   \<and> last (fst (chat_turn offline_env [] (lit ''arms?'')))
       = St_error (lit ''Error generating response: '' @ lit ''Connection error.'')"
    by simp
  from broken
    completion_failure_keeps_transcript
      [of broken_stream_env "snd (compose_messages broken_stream_env (lit ''arms?''))"
          "Exn ''APIError'' (lit ''stream interrupted'')" "lit ''arms?''" "[]"]
  have two: "snd (chat_turn broken_stream_env [] (lit ''arms?''))
       = [\<lparr>role = lit ''user'', content = lit ''arms?''\<rparr>,
          \<lparr>role = lit ''assistant'', content = apology\<rparr>]
   \<and> last (fst (chat_turn broken_stream_env [] (lit ''arms?'')))
       = St_error (lit ''Error generating response: '' @ lit ''stream interrupted'')"
    by simp
  from down broken one two show ?thesis by blast
qed

section \<open>The exercise lookup\<close>

text \<open>
  Claim C9, as amended. For every muscle-group string the lookup sends the lower-cased
  string as the \<open>muscle\<close> parameter, with the \<open>X-Api-Key\<close> header. When the request
  raises, when the response has a status from 400 to 599, or when its body is not JSON,
  the lookup reports the error with \<open>st.error\<close> and returns the empty list. Every other
  response with a JSON body, whatever its status, is returned as decoded, with no error
  reported. The lookup raises in none of these cases.
\<close>

theorem exercise_lookup_outcomes:
  "params (exercise_request e muscle) = [(lit ''muscle'', str_lower e muscle)]
   \<and> headers (exercise_request e muscle) = [(lit ''X-Api-Key'', API_NINJAS_KEY e)]
   \<and> (\<forall>err. requests_get e (exercise_request e muscle) = Inl err \<longrightarrow>
         get_exercise_info e muscle
           = ([St_error (lit ''Error fetching exercise data: '' @ err)], []))
   \<and> (\<forall>response. requests_get e (exercise_request e muscle) = Inr response
         \<and> 400 \<le> status_code response \<and> status_code response < 600 \<longrightarrow>
         (\<exists>err. get_exercise_info e muscle
           = ([St_error (lit ''Error fetching exercise data: '' @ err)], [])))
   \<and> (\<forall>response err. requests_get e (exercise_request e muscle) = Inr response
         \<and> json response = Inl err \<longrightarrow>
         (\<exists>err'. get_exercise_info e muscle
           = ([St_error (lit ''Error fetching exercise data: '' @ err')], [])))
   \<and> (\<forall>response exercises. requests_get e (exercise_request e muscle) = Inr response
         \<and> \<not> (400 \<le> status_code response \<and> status_code response < 600)
         \<and> json response = Inr exercises \<longrightarrow>
         get_exercise_info e muscle = ([], exercises))"
  by (auto simp: exercise_request_def get_exercise_info_def get_exercise_info_try_def
        raise_for_status_def split: sum.splits option.splits)

text \<open>
  "Biceps" is sent as "biceps"; a refused connection and a 404 both give the empty list
  and one error; a 200 with one record gives the record.
\<close>

theorem exercise_lookup_outcomes_witness:
  "params (exercise_request offline_env (lit ''Biceps'')) = [(lit ''muscle'', lit ''biceps'')]
   \<and> requests_get offline_env (exercise_request offline_env (lit ''Biceps''))
       = Inl (lit ''Connection refused'')
   \<and> get_exercise_info offline_env (lit ''Biceps'')
       = ([St_error (lit ''Error fetching exercise data: '' @ lit ''Connection refused'')], [])
   \<and> (\<exists>response. requests_get not_found_env (exercise_request not_found_env (lit ''Biceps''))
          = Inr response \<and> status_code response = 404)
   \<and> snd (get_exercise_info not_found_env (lit ''Biceps'')) = []
   \<and> length (fst (get_exercise_info not_found_env (lit ''Biceps''))) = 1
   \<and> (\<exists>response. requests_get biceps_found_env (exercise_request biceps_found_env (lit ''Biceps''))
          = Inr response \<and> status_code response = 200 \<and> json response = Inr [curl])
   \<and> get_exercise_info biceps_found_env (lit ''Biceps'') = ([], [curl])"
proof -
  have lowered: "str_lower offline_env (lit ''Biceps'') = lit ''biceps''"
    by (simp add: offline_env_def ascii_lower_def lit_def)
  have refused: "requests_get offline_env (exercise_request offline_env (lit ''Biceps''))
       = Inl (lit ''Connection refused'')"
    by (simp add: offline_env_def)
  have missing: "\<exists>response. requests_get not_found_env
          (exercise_request not_found_env (lit ''Biceps'')) = Inr response
        \<and> status_code response = 404"
    by (simp add: not_found_env_def)
  have served: "\<exists>response. requests_get biceps_found_env
          (exercise_request biceps_found_env (lit ''Biceps'')) = Inr response
        \<and> status_code response = 200 \<and> json response = Inr [curl]"
    by (simp add: biceps_found_env_def catalog_reply_def)
  from exercise_lookup_outcomes [of offline_env "lit ''Biceps''"] lowered refused
  have one: "params (exercise_request offline_env (lit ''Biceps''))
        = [(lit ''muscle'', lit ''biceps'')]
      \<and> get_exercise_info offline_env (lit ''Biceps'')
        = ([St_error (lit ''Error fetching exercise data: '' @ lit ''Connection refused'')], [])"
    by simp
  from exercise_lookup_outcomes [of not_found_env "lit ''Biceps''"] missing
  have two: "snd (get_exercise_info not_found_env (lit ''Biceps'')) = []
      \<and> length (fst (get_exercise_info not_found_env (lit ''Biceps''))) = 1"
    by fastforce
  from exercise_lookup_outcomes [of biceps_found_env "lit ''Biceps''"] served
  have three: "get_exercise_info biceps_found_env (lit ''Biceps'') = ([], [curl])"
    by fastforce
  from one refused missing two served three show ?thesis by blast
qed

text \<open>
  The claim as stated promises the empty list for every response that is not 2xx. A
  response \<open>300 Multiple Choices\<close> with a JSON array passes \<open>raise_for_status\<close>: the
  lookup returns its record and reports nothing.
\<close>

theorem exercise_lookup_status_300_counterexample:
  "(\<exists>response. requests_get multiple_choices_env
        (exercise_request multiple_choices_env (lit ''Biceps'')) = Inr response
      \<and> status_code response = 300)
   \<and> get_exercise_info multiple_choices_env (lit ''Biceps'') = ([], [curl])
   \<and> [curl] \<noteq> []"
  by (simp add: multiple_choices_env_def offline_env_def catalog_reply_def
        get_exercise_info_def get_exercise_info_try_def raise_for_status_def)

section \<open>The analysis of the workout history\<close>

text \<open>\<open>min\<close> and \<open>max\<close> of a non-empty column, and the statistics of a non-empty frame.\<close>

lemma series_min_Min: "xs \<noteq> [] \<Longrightarrow> series_min xs = Some (Min (set xs))"
  by (cases xs) (simp_all add: Min.set_eq_fold [symmetric])

lemma series_max_Max: "xs \<noteq> [] \<Longrightarrow> series_max xs = Some (Max (set xs))"
  by (cases xs) (simp_all add: Max.set_eq_fold [symmetric])

lemma workout_stats_nonempty:
  assumes "df \<noteq> []"
  shows "workout_stats e df =
     Inr \<lparr>start_date = strftime_Ymd (Min (date ` set df)),
          end_date = strftime_Ymd (Max (date ` set df)),
          total_days = timedelta_days (Max (date ` set df) - Min (date ` set df)) + 1,
          total_workouts = length df,
          days_active = nunique (map date df),
          muscle_groups = value_counts e (map muscle_group df),
          workout_types = value_counts e (map workout_type df),
          difficulty_levels = value_counts e (map difficulty df)\<rparr>"
  using assms by (simp add: workout_stats_def series_min_Min series_max_Max)

lemma workout_stats_empty:
  "workout_stats e [] = Inl (Exn ''ValueError'' (lit ''NaTType does not support strftime''))"
  by (simp add: workout_stats_def)

text \<open>
  Claim C8. For every non-empty entry collection, once the API key is read, if the
  completion request of the analysis raises, \<open>get_ai_analysis\<close> returns the literal
  "Unable to generate AI analysis: " followed by the text of the error; it neither raises
  nor returns a partial analysis. The request is not streamed, so it fails as a whole.
\<close>

theorem analysis_request_failure_gives_fallback:
  assumes "df \<noteq> []" and "secrets_API_KEY e = Inr api_key"
  shows "\<exists>s. workout_stats e df = Inr s
           \<and> (\<forall>err. chat_create e (analysis_request e s) = Inl err \<longrightarrow>
                 get_ai_analysis e df
                   = lit ''Unable to generate AI analysis: '' @ exn_str err)"
  using assms
  by (simp add: workout_stats_nonempty get_ai_analysis_def get_ai_analysis_try_def unable_def)

text \<open>
  The two-entry log with the completion service unreachable: the result is the fallback
  with the text of the connection error.
\<close>

theorem analysis_request_failure_gives_fallback_witness:
  "two_entry_log \<noteq> []
   \<and> secrets_API_KEY offline_env = Inr (lit ''sk-test'')
   \<and> (\<exists>s. workout_stats offline_env two_entry_log = Inr s
          \<and> chat_create offline_env (analysis_request offline_env s)
              = Inl (Exn ''APIConnectionError'' (lit ''Connection error.'')))
   \<and> get_ai_analysis offline_env two_entry_log
       = lit ''Unable to generate AI analysis: '' @ lit ''Connection error.''"
proof -
  have nonempty: "two_entry_log \<noteq> []"
    by (simp add: two_entry_log_def)
  have key: "secrets_API_KEY offline_env = Inr (lit ''sk-test'')"
    by (simp add: offline_env_def)
  have down: "chat_create offline_env r
      = Inl (Exn ''APIConnectionError'' (lit ''Connection error.''))" for r
    by (simp add: offline_env_def)
  from analysis_request_failure_gives_fallback [OF nonempty key]
  obtain s where s: "workout_stats offline_env two_entry_log = Inr s"
    and fallback: "\<forall>err. chat_create offline_env (analysis_request offline_env s) = Inl err \<longrightarrow>
        get_ai_analysis offline_env two_entry_log
          = lit ''Unable to generate AI analysis: '' @ exn_str err"
    by blast
  from fallback down have "get_ai_analysis offline_env two_entry_log
       = lit ''Unable to generate AI analysis: '' @ lit ''Connection error.''"
    by simp
  with nonempty key s down show ?thesis by blast
qed

text \<open>On a frame with columns the call returns what \<open>get_ai_analysis\<close> gives.\<close>

lemma get_ai_analysis_call_columns:
  "get_ai_analysis_call e (With_columns df) = Inr (get_ai_analysis e df)"
  by (simp add: get_ai_analysis_call_def try_except_def get_ai_analysis_def unable_def
      split: sum.splits)

text \<open>
  Claim C10. A call of \<open>get_ai_analysis\<close> always returns a string and never raises
  to its caller, for every frame, the empty one included, because every exception raised
  in the body is caught and mapped to "Unable to generate AI analysis: " followed by its
  text. The raises of the body are: the lookup of the API key; \<open>df['date']\<close> on a frame
  without columns; \<open>NaT.strftime\<close> on a frame without rows; the completion request;
  \<open>choices[0]\<close> on a reply without choices; and the final concatenation on a reply
  without content. On a frame with rows, when none of them raises, the result is the
  period header followed by the analysis.
\<close>

theorem get_ai_analysis_total:
  "(\<exists>text. get_ai_analysis_call e fr = Inr text)
   \<and> (\<forall>err. secrets_API_KEY e = Inl err \<longrightarrow>
         get_ai_analysis_call e fr
           = Inr (lit ''Unable to generate AI analysis: '' @ exn_str err))
   \<and> (\<forall>api_key. secrets_API_KEY e = Inr api_key \<and> fr = Without_columns \<longrightarrow>
         get_ai_analysis_call e fr
           = Inr (lit ''Unable to generate AI analysis: '' @ [39] @ lit ''date'' @ [39]))
   \<and> (\<forall>api_key. secrets_API_KEY e = Inr api_key \<and> fr = With_columns [] \<longrightarrow>
         get_ai_analysis_call e fr
           = Inr (lit ''Unable to generate AI analysis: NaTType does not support strftime''))
   \<and> (\<forall>api_key df. secrets_API_KEY e = Inr api_key \<and> fr = With_columns df \<and> df \<noteq> [] \<longrightarrow>
         (\<exists>s. workout_stats e df = Inr s))
   \<and> (\<forall>api_key df s. secrets_API_KEY e = Inr api_key \<and> fr = With_columns df
           \<and> workout_stats e df = Inr s \<longrightarrow>
         (\<forall>err. chat_create e (analysis_request e s) = Inl err \<longrightarrow>
            get_ai_analysis_call e fr
              = Inr (lit ''Unable to generate AI analysis: '' @ exn_str err))
         \<and> (chat_create e (analysis_request e s) = Inr [] \<longrightarrow>
            get_ai_analysis_call e fr
              = Inr (lit ''Unable to generate AI analysis: list index out of range''))
         \<and> (\<forall>others. chat_create e (analysis_request e s) = Inr (None # others) \<longrightarrow>
            get_ai_analysis_call e fr
              = Inr (lit ''Unable to generate AI analysis: can only concatenate str (not \"NoneType\") to str''))
         \<and> (\<forall>analysis others.
              chat_create e (analysis_request e s) = Inr (Some analysis # others) \<longrightarrow>
            get_ai_analysis_call e fr = Inr (period_context s @ [10, 10] @ analysis)))"
proof (intro conjI allI impI)
  show "\<exists>text. get_ai_analysis_call e fr = Inr text"
    by (simp add: get_ai_analysis_call_def try_except_def split: sum.splits)
next
  fix err assume "secrets_API_KEY e = Inl err"
  then show "get_ai_analysis_call e fr
      = Inr (lit ''Unable to generate AI analysis: '' @ exn_str err)"
    by (cases fr) (simp_all add: get_ai_analysis_call_def try_except_def get_ai_analysis_try_def)
next
  fix api_key assume "secrets_API_KEY e = Inr api_key \<and> fr = Without_columns"
  then show "get_ai_analysis_call e fr
      = Inr (lit ''Unable to generate AI analysis: '' @ [39] @ lit ''date'' @ [39])"
    by (simp add: get_ai_analysis_call_def try_except_def)
next
  fix api_key assume "secrets_API_KEY e = Inr api_key \<and> fr = With_columns []"
  then show "get_ai_analysis_call e fr
      = Inr (lit ''Unable to generate AI analysis: NaTType does not support strftime'')"
    by (simp add: get_ai_analysis_call_def try_except_def get_ai_analysis_try_def
          workout_stats_empty lit_def)
next
  fix api_key df
  assume "secrets_API_KEY e = Inr api_key \<and> fr = With_columns df \<and> df \<noteq> []"
  then show "\<exists>s. workout_stats e df = Inr s"
    by (simp add: workout_stats_nonempty)
next
  fix api_key df s err
  assume "secrets_API_KEY e = Inr api_key \<and> fr = With_columns df \<and> workout_stats e df = Inr s"
    and "chat_create e (analysis_request e s) = Inl err"
  then show "get_ai_analysis_call e fr
      = Inr (lit ''Unable to generate AI analysis: '' @ exn_str err)"
    by (simp add: get_ai_analysis_call_def try_except_def get_ai_analysis_try_def)
next
  fix api_key df s
  assume "secrets_API_KEY e = Inr api_key \<and> fr = With_columns df \<and> workout_stats e df = Inr s"
    and "chat_create e (analysis_request e s) = Inr []"
  then show "get_ai_analysis_call e fr
      = Inr (lit ''Unable to generate AI analysis: list index out of range'')"
    by (simp add: get_ai_analysis_call_def try_except_def get_ai_analysis_try_def lit_def)
next
  fix api_key df s others
  assume "secrets_API_KEY e = Inr api_key \<and> fr = With_columns df \<and> workout_stats e df = Inr s"
    and "chat_create e (analysis_request e s) = Inr (None # others)"
  then show "get_ai_analysis_call e fr
      = Inr (lit ''Unable to generate AI analysis: can only concatenate str (not \"NoneType\") to str'')"
    by (simp add: get_ai_analysis_call_def try_except_def get_ai_analysis_try_def lit_def)
next
  fix api_key df s analysis others
  assume "secrets_API_KEY e = Inr api_key \<and> fr = With_columns df \<and> workout_stats e df = Inr s"
    and "chat_create e (analysis_request e s) = Inr (Some analysis # others)"
  then show "get_ai_analysis_call e fr = Inr (period_context s @ [10, 10] @ analysis)"
    by (simp add: get_ai_analysis_call_def try_except_def get_ai_analysis_try_def)
qed

text \<open>The period header of the two-entry log.\<close>

lemma two_entry_period:
  "\<exists>s. workout_stats e two_entry_log = Inr s
        \<and> period_context s = [10] @ lit ''Analysis Period: 2024-01-01 to 2024-01-03 (3 days)''"
proof -
  have "two_entry_log \<noteq> []"
    by (simp add: two_entry_log_def)
  then obtain s where s: "workout_stats e two_entry_log = Inr s"
    by (auto simp: workout_stats_nonempty)
  have "start_date s = strftime_Ymd (timestamp 2024 1 1 0 0 0)"
    and "end_date s = strftime_Ymd (timestamp 2024 1 3 0 0 0)"
    and "total_days s
          = timedelta_days (timestamp 2024 1 3 0 0 0 - timestamp 2024 1 1 0 0 0) + 1"
    using s
    by (auto simp: workout_stats_def two_entry_log_def chest_entry_def back_entry_def
          timestamp_def days_from_civil_def ns_per_day_def)
  moreover have "strftime_Ymd (timestamp 2024 1 1 0 0 0) = lit ''2024-01-01''"
    and "strftime_Ymd (timestamp 2024 1 3 0 0 0) = lit ''2024-01-03''"
    and "str_int (timedelta_days (timestamp 2024 1 3 0 0 0 - timestamp 2024 1 1 0 0 0) + 1)
          = lit ''3''"
    by code_simp+
  ultimately have "period_context s
      = [10] @ lit ''Analysis Period: 2024-01-01 to 2024-01-03 (3 days)''"
    by (simp add: period_context_def lit_def)
  with s show ?thesis by blast
qed

text \<open>
  One call for each case: no API key; a frame without columns; a frame without rows; the
  two-entry log with the service unreachable, with a reply without choices, with a reply
  without content, and with the reply "Keep going.".
\<close>

theorem get_ai_analysis_total_witness:
  "get_ai_analysis_call no_secret_env (With_columns two_entry_log)
     = Inr (lit ''Unable to generate AI analysis: No secrets found.'')
   \<and> get_ai_analysis_call offline_env Without_columns
     = Inr (lit ''Unable to generate AI analysis: '' @ [39] @ lit ''date'' @ [39])
   \<and> get_ai_analysis_call offline_env (With_columns [])
     = Inr (lit ''Unable to generate AI analysis: NaTType does not support strftime'')
   \<and> get_ai_analysis_call offline_env (With_columns two_entry_log)
     = Inr (lit ''Unable to generate AI analysis: Connection error.'')
   \<and> get_ai_analysis_call no_choice_env (With_columns two_entry_log)
     = Inr (lit ''Unable to generate AI analysis: list index out of range'')
   \<and> get_ai_analysis_call no_content_env (With_columns two_entry_log)
     = Inr (lit ''Unable to generate AI analysis: can only concatenate str (not \"NoneType\") to str'')
   \<and> get_ai_analysis_call analyst_env (With_columns two_entry_log)
     = Inr ([10] @ lit ''Analysis Period: 2024-01-01 to 2024-01-03 (3 days)'' @ [10, 10]
            @ lit ''Keep going.'')"
proof -
  have key: "secrets_API_KEY offline_env = Inr (lit ''sk-test'')"
    "secrets_API_KEY no_choice_env = Inr (lit ''sk-test'')"
    "secrets_API_KEY no_content_env = Inr (lit ''sk-test'')"
    "secrets_API_KEY analyst_env = Inr (lit ''sk-test'')"
    by (simp_all add: offline_env_def no_choice_env_def no_content_env_def analyst_env_def)
  have no_key: "secrets_API_KEY no_secret_env
      = Inl (Exn ''FileNotFoundError'' (lit ''No secrets found.''))"
    by (simp add: no_secret_env_def)
  have replies: "chat_create offline_env r
        = Inl (Exn ''APIConnectionError'' (lit ''Connection error.''))"
    "chat_create no_choice_env r = Inr []"
    "chat_create no_content_env r = Inr [None]"
    "chat_create analyst_env r = Inr [Some (lit ''Keep going.'')]" for r
    by (simp_all add: offline_env_def no_choice_env_def no_content_env_def analyst_env_def)
  from get_ai_analysis_total [of no_secret_env "With_columns two_entry_log"] no_key
  have one: "get_ai_analysis_call no_secret_env (With_columns two_entry_log)
     = Inr (lit ''Unable to generate AI analysis: No secrets found.'')"
    by (simp add: lit_def)
  from get_ai_analysis_total [of offline_env Without_columns] key
  have two: "get_ai_analysis_call offline_env Without_columns
     = Inr (lit ''Unable to generate AI analysis: '' @ [39] @ lit ''date'' @ [39])"
    by simp
  from get_ai_analysis_total [of offline_env "With_columns []"] key
  have three: "get_ai_analysis_call offline_env (With_columns [])
     = Inr (lit ''Unable to generate AI analysis: NaTType does not support strftime'')"
    by simp
  obtain s4 where s4: "workout_stats offline_env two_entry_log = Inr s4"
    using two_entry_period by blast
  from get_ai_analysis_total [of offline_env "With_columns two_entry_log"] key s4 replies
  have four: "get_ai_analysis_call offline_env (With_columns two_entry_log)
     = Inr (lit ''Unable to generate AI analysis: Connection error.'')"
    by (simp add: lit_def)
  obtain s5 where s5: "workout_stats no_choice_env two_entry_log = Inr s5"
    using two_entry_period by blast
  from get_ai_analysis_total [of no_choice_env "With_columns two_entry_log"] key s5 replies
  have five: "get_ai_analysis_call no_choice_env (With_columns two_entry_log)
     = Inr (lit ''Unable to generate AI analysis: list index out of range'')"
    by simp
  obtain s6 where s6: "workout_stats no_content_env two_entry_log = Inr s6"
    using two_entry_period by blast
  from get_ai_analysis_total [of no_content_env "With_columns two_entry_log"] key s6 replies
  have six: "get_ai_analysis_call no_content_env (With_columns two_entry_log)
     = Inr (lit ''Unable to generate AI analysis: can only concatenate str (not \"NoneType\") to str'')"
    by simp
  obtain s7 where s7: "workout_stats analyst_env two_entry_log = Inr s7"
    and p7: "period_context s7 = [10] @ lit ''Analysis Period: 2024-01-01 to 2024-01-03 (3 days)''"
    using two_entry_period by blast
  from get_ai_analysis_total [of analyst_env "With_columns two_entry_log"] key s7 replies
  have "get_ai_analysis_call analyst_env (With_columns two_entry_log)
     = Inr (period_context s7 @ [10, 10] @ lit ''Keep going.'')"
    by simp
  then have seven: "get_ai_analysis_call analyst_env (With_columns two_entry_log)
     = Inr ([10] @ lit ''Analysis Period: 2024-01-01 to 2024-01-03 (3 days)'' @ [10, 10]
            @ lit ''Keep going.'')"
    by (simp add: p7)
  from one two three four five six seven show ?thesis by blast
qed

section \<open>Permutations, the stable sort and the frequency tables\<close>







section \<open>The summary statistics\<close>









section \<open>The exercise history table\<close>




end
